theory Spec2Isabelle
  imports Complex_Main "HOL-Library.Log_Nat" "HOL-Library.Stream"
begin

section \<open>Exceptions\<close>

text \<open>
  The generator is a Python script. Every exception that one of its statements can raise
  is a value of \<open>py_error\<close>: a missing dictionary key, a list index out of range, a float
  division by zero, and a failure inside a collaborator the script calls (Spark, pandas,
  Faker).
\<close>

datatype py_error = KeyError string | IndexError | ZeroDivisionError | ExternalError

section \<open>Reference data: \<open>INDIAN_STATES\<close> and \<open>INDIAN_CITIES\<close>\<close>

text \<open>
  The two literal lists of the script. A state entry is the pair (state_name, region), a
  city entry the triple (city_name, state_name, tier).
\<close>

definition INDIAN_STATES :: "(string \<times> string) list" where
  "INDIAN_STATES = [
   (''Andhra Pradesh'', ''South''), (''Arunachal Pradesh'', ''Northeast''),
   (''Assam'', ''Northeast''), (''Bihar'', ''East''),
   (''Chhattisgarh'', ''Central''), (''Goa'', ''West''),
   (''Gujarat'', ''West''), (''Haryana'', ''North''),
   (''Himachal Pradesh'', ''North''), (''Jharkhand'', ''East''),
   (''Karnataka'', ''South''), (''Kerala'', ''South''),
   (''Madhya Pradesh'', ''Central''), (''Maharashtra'', ''West''),
   (''Manipur'', ''Northeast''), (''Meghalaya'', ''Northeast''),
   (''Mizoram'', ''Northeast''), (''Nagaland'', ''Northeast''),
   (''Odisha'', ''East''), (''Punjab'', ''North''),
   (''Rajasthan'', ''North''), (''Sikkim'', ''Northeast''),
   (''Tamil Nadu'', ''South''), (''Telangana'', ''South''),
   (''Tripura'', ''Northeast''), (''Uttar Pradesh'', ''North''),
   (''Uttarakhand'', ''North''), (''West Bengal'', ''East'')]"

definition INDIAN_CITIES :: "(string \<times> string \<times> string) list" where
  "INDIAN_CITIES = [
   (''Visakhapatnam'', ''Andhra Pradesh'', ''Tier2''), (''Vijayawada'', ''Andhra Pradesh'', ''Tier2''),
   (''Guntur'', ''Andhra Pradesh'', ''Tier3''), (''Tirupati'', ''Andhra Pradesh'', ''Tier2''),
   (''Kurnool'', ''Andhra Pradesh'', ''Tier3''), (''Nellore'', ''Andhra Pradesh'', ''Tier3''),
   (''Rajahmundry'', ''Andhra Pradesh'', ''Tier3''), (''Anantapur'', ''Andhra Pradesh'', ''Tier3''),
   (''Kadapa'', ''Andhra Pradesh'', ''Tier3''), (''Chittoor'', ''Andhra Pradesh'', ''Tier3''),
   (''Eluru'', ''Andhra Pradesh'', ''Tier3''), (''Srikakulam'', ''Andhra Pradesh'', ''Tier3''),
   (''Ongole'', ''Andhra Pradesh'', ''Tier3''), (''Proddatur'', ''Andhra Pradesh'', ''Tier3''),
   (''Nandyal'', ''Andhra Pradesh'', ''Tier3''), (''Kakinada'', ''Andhra Pradesh'', ''Tier3''),
   (''Bapatla'', ''Andhra Pradesh'', ''Tier3''), (''Tenali'', ''Andhra Pradesh'', ''Tier3''),
   (''Bhimavaram'', ''Andhra Pradesh'', ''Tier3''), (''Amalapuram'', ''Andhra Pradesh'', ''Tier3''),
   (''Itanagar'', ''Arunachal Pradesh'', ''Tier3''), (''Tawang'', ''Arunachal Pradesh'', ''Tier3''),
   (''Ziro'', ''Arunachal Pradesh'', ''Tier3''), (''Pasighat'', ''Arunachal Pradesh'', ''Tier3''),
   (''Naharlagun'', ''Arunachal Pradesh'', ''Tier3''), (''Roing'', ''Arunachal Pradesh'', ''Tier3''),
   (''Tezu'', ''Arunachal Pradesh'', ''Tier3''), (''Namsai'', ''Arunachal Pradesh'', ''Tier3''),
   (''Aalo'', ''Arunachal Pradesh'', ''Tier3''), (''Bomdila'', ''Arunachal Pradesh'', ''Tier3''),
   (''Seppa'', ''Arunachal Pradesh'', ''Tier3''), (''Yingkiong'', ''Arunachal Pradesh'', ''Tier3''),
   (''Changlang'', ''Arunachal Pradesh'', ''Tier3''), (''Guwahati'', ''Assam'', ''Tier2''),
   (''Dibrugarh'', ''Assam'', ''Tier3''), (''Jorhat'', ''Assam'', ''Tier3''),
   (''Nagaon'', ''Assam'', ''Tier3''), (''Silchar'', ''Assam'', ''Tier3''),
   (''Tinsukia'', ''Assam'', ''Tier3''), (''Bongaigaon'', ''Assam'', ''Tier3''),
   (''Barpeta'', ''Assam'', ''Tier3''), (''Tezpur'', ''Assam'', ''Tier3''),
   (''Sivasagar'', ''Assam'', ''Tier3''), (''Nalbari'', ''Assam'', ''Tier3''),
   (''Dhemaji'', ''Assam'', ''Tier3''), (''Goalpara'', ''Assam'', ''Tier3''),
   (''Patna'', ''Bihar'', ''Tier2''), (''Gaya'', ''Bihar'', ''Tier3''),
   (''Bhagalpur'', ''Bihar'', ''Tier3''), (''Muzaffarpur'', ''Bihar'', ''Tier3''),
   (''Darbhanga'', ''Bihar'', ''Tier3''), (''Munger'', ''Bihar'', ''Tier3''),
   (''Begusarai'', ''Bihar'', ''Tier3''), (''Purnia'', ''Bihar'', ''Tier3''),
   (''Arrah'', ''Bihar'', ''Tier3''), (''Siwan'', ''Bihar'', ''Tier3''),
   (''Samastipur'', ''Bihar'', ''Tier3''), (''Nalanda'', ''Bihar'', ''Tier3''),
   (''Buxar'', ''Bihar'', ''Tier3''), (''Raipur'', ''Chhattisgarh'', ''Tier2''),
   (''Bhilai'', ''Chhattisgarh'', ''Tier3''), (''Bilaspur'', ''Chhattisgarh'', ''Tier3''),
   (''Korba'', ''Chhattisgarh'', ''Tier3''), (''Durg'', ''Chhattisgarh'', ''Tier3''),
   (''Rajnandgaon'', ''Chhattisgarh'', ''Tier3''), (''Raigarh'', ''Chhattisgarh'', ''Tier3''),
   (''Jagdalpur'', ''Chhattisgarh'', ''Tier3''), (''Ambikapur'', ''Chhattisgarh'', ''Tier3''),
   (''Dhamtari'', ''Chhattisgarh'', ''Tier3''), (''Panaji'', ''Goa'', ''Tier3''),
   (''Vasco da Gama'', ''Goa'', ''Tier3''), (''Margao'', ''Goa'', ''Tier3''),
   (''Mapusa'', ''Goa'', ''Tier3''), (''Ponda'', ''Goa'', ''Tier3''),
   (''Bicholim'', ''Goa'', ''Tier3''), (''Ahmedabad'', ''Gujarat'', ''Tier1''),
   (''Surat'', ''Gujarat'', ''Tier1''), (''Vadodara'', ''Gujarat'', ''Tier2''),
   (''Rajkot'', ''Gujarat'', ''Tier2''), (''Gandhinagar'', ''Gujarat'', ''Tier3''),
   (''Bhavnagar'', ''Gujarat'', ''Tier3''), (''Jamnagar'', ''Gujarat'', ''Tier3''),
   (''Junagadh'', ''Gujarat'', ''Tier3''), (''Anand'', ''Gujarat'', ''Tier3''),
   (''Nadiad'', ''Gujarat'', ''Tier3''), (''Valsad'', ''Gujarat'', ''Tier3''),
   (''Bharuch'', ''Gujarat'', ''Tier3''), (''Porbandar'', ''Gujarat'', ''Tier3''),
   (''Patan'', ''Gujarat'', ''Tier3''), (''Faridabad'', ''Haryana'', ''Tier1''),
   (''Gurgaon'', ''Haryana'', ''Tier1''), (''Ambala'', ''Haryana'', ''Tier3''),
   (''Hisar'', ''Haryana'', ''Tier3''), (''Panipat'', ''Haryana'', ''Tier3''),
   (''Rohtak'', ''Haryana'', ''Tier3''), (''Karnal'', ''Haryana'', ''Tier3''),
   (''Sonipat'', ''Haryana'', ''Tier3''), (''Yamunanagar'', ''Haryana'', ''Tier3''),
   (''Sirsa'', ''Haryana'', ''Tier3''), (''Shimla'', ''Himachal Pradesh'', ''Tier3''),
   (''Dharamshala'', ''Himachal Pradesh'', ''Tier3''), (''Manali'', ''Himachal Pradesh'', ''Tier3''),
   (''Solan'', ''Himachal Pradesh'', ''Tier3''), (''Kullu'', ''Himachal Pradesh'', ''Tier3''),
   (''Mandi'', ''Himachal Pradesh'', ''Tier3''), (''Nahan'', ''Himachal Pradesh'', ''Tier3''),
   (''Palampur'', ''Himachal Pradesh'', ''Tier3''), (''Bilaspur'', ''Himachal Pradesh'', ''Tier3''),
   (''Hamirpur'', ''Himachal Pradesh'', ''Tier3''), (''Ranchi'', ''Jharkhand'', ''Tier2''),
   (''Jamshedpur'', ''Jharkhand'', ''Tier2''), (''Dhanbad'', ''Jharkhand'', ''Tier3''),
   (''Bokaro Steel City'', ''Jharkhand'', ''Tier3''), (''Hazaribagh'', ''Jharkhand'', ''Tier3''),
   (''Deoghar'', ''Jharkhand'', ''Tier3''), (''Dumka'', ''Jharkhand'', ''Tier3''),
   (''Giridih'', ''Jharkhand'', ''Tier3''), (''Chaibasa'', ''Jharkhand'', ''Tier3''),
   (''Bengaluru'', ''Karnataka'', ''Tier1''), (''Mysuru'', ''Karnataka'', ''Tier2''),
   (''Mangaluru'', ''Karnataka'', ''Tier2''), (''Hubballi'', ''Karnataka'', ''Tier3''),
   (''Belagavi'', ''Karnataka'', ''Tier3''), (''Davangere'', ''Karnataka'', ''Tier3''),
   (''Ballari'', ''Karnataka'', ''Tier3''), (''Tumakuru'', ''Karnataka'', ''Tier3''),
   (''Udupi'', ''Karnataka'', ''Tier3''), (''Chikkamagaluru'', ''Karnataka'', ''Tier3''),
   (''Thiruvananthapuram'', ''Kerala'', ''Tier2''), (''Kochi'', ''Kerala'', ''Tier1''),
   (''Kozhikode'', ''Kerala'', ''Tier2''), (''Thrissur'', ''Kerala'', ''Tier3''),
   (''Kollam'', ''Kerala'', ''Tier3''), (''Kannur'', ''Kerala'', ''Tier3''),
   (''Alappuzha'', ''Kerala'', ''Tier3''), (''Palakkad'', ''Kerala'', ''Tier3''),
   (''Kottayam'', ''Kerala'', ''Tier3''), (''Malappuram'', ''Kerala'', ''Tier3''),
   (''Bhopal'', ''Madhya Pradesh'', ''Tier2''), (''Indore'', ''Madhya Pradesh'', ''Tier1''),
   (''Gwalior'', ''Madhya Pradesh'', ''Tier2''), (''Jabalpur'', ''Madhya Pradesh'', ''Tier2''),
   (''Ujjain'', ''Madhya Pradesh'', ''Tier3''), (''Sagar'', ''Madhya Pradesh'', ''Tier3''),
   (''Rewa'', ''Madhya Pradesh'', ''Tier3''), (''Satna'', ''Madhya Pradesh'', ''Tier3''),
   (''Khandwa'', ''Madhya Pradesh'', ''Tier3''), (''Burhanpur'', ''Madhya Pradesh'', ''Tier3''),
   (''Mumbai'', ''Maharashtra'', ''Tier1''), (''Pune'', ''Maharashtra'', ''Tier1''),
   (''Nagpur'', ''Maharashtra'', ''Tier1''), (''Nashik'', ''Maharashtra'', ''Tier2''),
   (''Aurangabad'', ''Maharashtra'', ''Tier2''), (''Thane'', ''Maharashtra'', ''Tier1''),
   (''Solapur'', ''Maharashtra'', ''Tier2''), (''Kolhapur'', ''Maharashtra'', ''Tier3''),
   (''Amravati'', ''Maharashtra'', ''Tier3''), (''Jalgaon'', ''Maharashtra'', ''Tier3''),
   (''Nanded'', ''Maharashtra'', ''Tier3''), (''Sangli'', ''Maharashtra'', ''Tier3''),
   (''Akola'', ''Maharashtra'', ''Tier3''), (''Chandrapur'', ''Maharashtra'', ''Tier3''),
   (''Parbhani'', ''Maharashtra'', ''Tier3''), (''Imphal'', ''Manipur'', ''Tier3''),
   (''Thoubal'', ''Manipur'', ''Tier3''), (''Kakching'', ''Manipur'', ''Tier3''),
   (''Bishnupur'', ''Manipur'', ''Tier3''), (''Churachandpur'', ''Manipur'', ''Tier3''),
   (''Shillong'', ''Meghalaya'', ''Tier3''), (''Tura'', ''Meghalaya'', ''Tier3''),
   (''Jowai'', ''Meghalaya'', ''Tier3''), (''Nongpoh'', ''Meghalaya'', ''Tier3''),
   (''Williamnagar'', ''Meghalaya'', ''Tier3''), (''Aizawl'', ''Mizoram'', ''Tier3''),
   (''Lunglei'', ''Mizoram'', ''Tier3''), (''Champhai'', ''Mizoram'', ''Tier3''),
   (''Kolasib'', ''Mizoram'', ''Tier3''), (''Serchhip'', ''Mizoram'', ''Tier3''),
   (''Kohima'', ''Nagaland'', ''Tier3''), (''Dimapur'', ''Nagaland'', ''Tier3''),
   (''Mokokchung'', ''Nagaland'', ''Tier3''), (''Wokha'', ''Nagaland'', ''Tier3''),
   (''Zunheboto'', ''Nagaland'', ''Tier3''), (''Bhubaneswar'', ''Odisha'', ''Tier2''),
   (''Cuttack'', ''Odisha'', ''Tier2''), (''Rourkela'', ''Odisha'', ''Tier3''),
   (''Berhampur'', ''Odisha'', ''Tier3''), (''Sambalpur'', ''Odisha'', ''Tier3''),
   (''Balasore'', ''Odisha'', ''Tier3''), (''Jharsuguda'', ''Odisha'', ''Tier3''),
   (''Amritsar'', ''Punjab'', ''Tier2''), (''Ludhiana'', ''Punjab'', ''Tier2''),
   (''Jalandhar'', ''Punjab'', ''Tier2''), (''Patiala'', ''Punjab'', ''Tier3''),
   (''Bathinda'', ''Punjab'', ''Tier3''), (''Mohali'', ''Punjab'', ''Tier2''),
   (''Hoshiarpur'', ''Punjab'', ''Tier3''), (''Moga'', ''Punjab'', ''Tier3''),
   (''Jaipur'', ''Rajasthan'', ''Tier1''), (''Jodhpur'', ''Rajasthan'', ''Tier2''),
   (''Udaipur'', ''Rajasthan'', ''Tier2''), (''Kota'', ''Rajasthan'', ''Tier2''),
   (''Ajmer'', ''Rajasthan'', ''Tier3''), (''Bikaner'', ''Rajasthan'', ''Tier3''),
   (''Alwar'', ''Rajasthan'', ''Tier3''), (''Chittorgarh'', ''Rajasthan'', ''Tier3''),
   (''Pali'', ''Rajasthan'', ''Tier3''), (''Sikar'', ''Rajasthan'', ''Tier3''),
   (''Gangtok'', ''Sikkim'', ''Tier3''), (''Namchi'', ''Sikkim'', ''Tier3''),
   (''Mangan'', ''Sikkim'', ''Tier3''), (''Chennai'', ''Tamil Nadu'', ''Tier1''),
   (''Coimbatore'', ''Tamil Nadu'', ''Tier1''), (''Madurai'', ''Tamil Nadu'', ''Tier2''),
   (''Tiruchirappalli'', ''Tamil Nadu'', ''Tier2''), (''Salem'', ''Tamil Nadu'', ''Tier2''),
   (''Tirunelveli'', ''Tamil Nadu'', ''Tier3''), (''Erode'', ''Tamil Nadu'', ''Tier3''),
   (''Vellore'', ''Tamil Nadu'', ''Tier3''), (''Dindigul'', ''Tamil Nadu'', ''Tier3''),
   (''Hyderabad'', ''Telangana'', ''Tier1''), (''Warangal'', ''Telangana'', ''Tier2''),
   (''Khammam'', ''Telangana'', ''Tier3''), (''Karimnagar'', ''Telangana'', ''Tier3''),
   (''Nizamabad'', ''Telangana'', ''Tier3''), (''Mahabubnagar'', ''Telangana'', ''Tier3''),
   (''Agartala'', ''Tripura'', ''Tier3''), (''Kailashahar'', ''Tripura'', ''Tier3''),
   (''Udaipur'', ''Tripura'', ''Tier3''), (''Belonia'', ''Tripura'', ''Tier3''),
   (''Lucknow'', ''Uttar Pradesh'', ''Tier1''), (''Kanpur'', ''Uttar Pradesh'', ''Tier1''),
   (''Varanasi'', ''Uttar Pradesh'', ''Tier2''), (''Agra'', ''Uttar Pradesh'', ''Tier2''),
   (''Allahabad'', ''Uttar Pradesh'', ''Tier2''), (''Ghaziabad'', ''Uttar Pradesh'', ''Tier1''),
   (''Meerut'', ''Uttar Pradesh'', ''Tier2''), (''Noida'', ''Uttar Pradesh'', ''Tier1''),
   (''Bareilly'', ''Uttar Pradesh'', ''Tier3''), (''Aligarh'', ''Uttar Pradesh'', ''Tier3''),
   (''Dehradun'', ''Uttarakhand'', ''Tier2''), (''Haridwar'', ''Uttarakhand'', ''Tier3''),
   (''Nainital'', ''Uttarakhand'', ''Tier3''), (''Roorkee'', ''Uttarakhand'', ''Tier3''),
   (''Haldwani'', ''Uttarakhand'', ''Tier3''), (''Kolkata'', ''West Bengal'', ''Tier1''),
   (''Darjeeling'', ''West Bengal'', ''Tier3''), (''Siliguri'', ''West Bengal'', ''Tier2''),
   (''Asansol'', ''West Bengal'', ''Tier3''), (''Howrah'', ''West Bengal'', ''Tier2''),
   (''Durgapur'', ''West Bengal'', ''Tier3''), (''Kalyani'', ''West Bengal'', ''Tier3'')]"

section \<open>The dimension tables\<close>

record state_row =
  state_id :: nat
  state_name :: string
  region :: string

record city_row =
  city_id :: nat
  city_name :: string
  city_state_id :: nat
  tier_classification :: string

text \<open>
  \<open>enumerate(xs, 1)\<close>: the entries paired with 1, 2, 3, ...
\<close>

definition enumerate1 :: "'a list \<Rightarrow> (nat \<times> 'a) list" where
  "enumerate1 xs = zip [1 ..< Suc (length xs)] xs"

text \<open>
  \<open>create_dim_state\<close>, the rows it builds: one per entry of \<open>INDIAN_STATES\<close>, numbered
  from 1.
\<close>

definition dim_state_rows :: "state_row list" where
  "dim_state_rows =
     map (\<lambda>(i, state_info).
            \<lparr>state_id = i, state_name = fst state_info, region = snd state_info\<rparr>)
         (enumerate1 INDIAN_STATES)"

text \<open>
  The dictionary comprehension \<open>{row['state_name']: row['state_id'] for ...}\<close>: a later
  row with the same name overwrites an earlier one, so the lookup searches the rows from
  the last to the first.
\<close>

definition state_lookup :: "state_row list \<Rightarrow> (string \<rightharpoonup> nat)" where
  "state_lookup state_df = map_of (rev (map (\<lambda>row. (state_name row, state_id row)) state_df))"

text \<open>
  The loop of \<open>create_dim_city\<close>. \<open>state_lookup[city_info['state_name']]\<close> raises
  \<open>KeyError\<close> when the name is not a key; the loop stops there.
\<close>

fun city_loop :: "(string \<rightharpoonup> nat) \<Rightarrow> (nat \<times> string \<times> string \<times> string) list
    \<Rightarrow> py_error + city_row list" where
  "city_loop lookup [] = Inr []"
| "city_loop lookup ((i, city_info) # rest) =
     (case lookup (fst (snd city_info)) of
        None \<Rightarrow> Inl (KeyError (fst (snd city_info)))
      | Some sid \<Rightarrow>
          (case city_loop lookup rest of
             Inl e \<Rightarrow> Inl e
           | Inr rows \<Rightarrow>
               Inr (\<lparr>city_id = i, city_name = fst city_info, city_state_id = sid,
                     tier_classification = snd (snd city_info)\<rparr> # rows)))"

definition dim_city_rows :: "state_row list \<Rightarrow> py_error + city_row list" where
  "dim_city_rows state_df = city_loop (state_lookup state_df) (enumerate1 INDIAN_CITIES)"

text \<open>
  What the city table has to satisfy against the state table it was built from: the city
  entry and the row agree, the row's \<open>state_id\<close> is the id of a state row, and that state
  row carries the state name of the city entry.
\<close>

definition city_refers :: "state_row list \<Rightarrow> (string \<times> string \<times> string) \<Rightarrow> city_row \<Rightarrow> bool" where
  "city_refers state_df city_info c =
     (city_name c = fst city_info \<and>
      1 \<le> city_state_id c \<and> city_state_id c \<le> 28 \<and>
      state_id (state_df ! (city_state_id c - 1)) = city_state_id c \<and>
      state_name (state_df ! (city_state_id c - 1)) = fst (snd city_info))"

definition cities_ok :: "state_row list \<Rightarrow> py_error + city_row list \<Rightarrow> bool" where
  "cities_ok state_df r =
     (case r of
        Inl e \<Rightarrow> False
      | Inr rows \<Rightarrow> list_all2 (city_refers state_df) INDIAN_CITIES rows)"

section \<open>Properties of the dimension tables\<close>

lemma length_dim_state_rows: "length dim_state_rows = 28"
  by (simp add: dim_state_rows_def enumerate1_def INDIAN_STATES_def)

lemma state_ids_dim_state_rows: "map state_id dim_state_rows = [1 ..< 29]"
  by code_simp

text \<open>
  Claim C5. Building the city table from the state table never raises: every city entry's
  state name is a key of the state lookup. Each of the 252 city rows has a \<open>state_id\<close> in
  1..28, and the state row with that id carries the state name of the city entry.
\<close>

theorem dim_city_state_ids_valid:
  "cities_ok dim_state_rows (dim_city_rows dim_state_rows) \<and>
   length INDIAN_CITIES = 252 \<and> length dim_state_rows = 28"
  by code_simp

end
